theory Spec2Isabelle
  imports Main "HOL-Library.Sublist" "HOL-Library.List_Lexorder"
begin

section \<open>Python values used by the knowledge-agent app\<close>

text \<open>
  A Python \<open>str\<close> is a sequence of Unicode code points, so it is modelled as a list of
  natural numbers; \<open>lit\<close> turns an ASCII literal into such a list. Comparison of two
  \<open>str\<close> values in Python is lexicographic on code points, which is the order of
  \<open>HOL-Library.List_Lexorder\<close> on \<open>nat list\<close>.
\<close>

type_synonym pystr = "nat list"

definition lit :: "string \<Rightarrow> pystr" where
  "lit s = map of_char s"

text \<open>The code points for which Python's \<open>str.isspace\<close> holds; \<open>str.strip()\<close> removes them.\<close>

definition isspace :: "nat \<Rightarrow> bool" where
  "isspace c \<longleftrightarrow>
     (9 \<le> c \<and> c \<le> 13) \<or> (28 \<le> c \<and> c \<le> 32) \<or> c = 133 \<or> c = 160 \<or> c = 5760 \<or>
     (8192 \<le> c \<and> c \<le> 8202) \<or> c = 8232 \<or> c = 8233 \<or> c = 8239 \<or> c = 8287 \<or> c = 12288"

definition strip :: "pystr \<Rightarrow> pystr" where
  "strip s = rev (dropWhile isspace (rev (dropWhile isspace s)))"

text \<open>
  \<open>xs[lo:hi]\<close> with Python's rules: a negative bound counts from the end, and both
  bounds are clamped to the list.
\<close>

definition slice_bound :: "int \<Rightarrow> nat \<Rightarrow> nat" where
  "slice_bound i n = (if i < 0 then nat (max (i + int n) 0) else min (nat i) n)"

definition py_slice :: "'a list \<Rightarrow> int \<Rightarrow> int \<Rightarrow> 'a list" where
  "py_slice xs lo hi =
     (let a = slice_bound lo (length xs); b = slice_bound hi (length xs)
      in take (b - a) (drop a xs))"

section \<open>Chunker\<close>

definition MAX_CHUNK_TOKENS :: int where
  "MAX_CHUNK_TOKENS = 1000"

definition CHUNK_OVERLAP_TOKENS :: int where
  "CHUNK_OVERLAP_TOKENS = 150"

text \<open>
  The body of the \<open>for start in range(0, len(tokens), step)\<close> loop of
  \<open>split_text_by_tokens\<close>, with \<open>step = max(chunk_size - overlap, 1)\<close>. The tokenizer's
  \<open>decode\<close> is a parameter: it belongs to the tokenization library.
\<close>

function split_loop ::
  "('t list \<Rightarrow> pystr) \<Rightarrow> 't list \<Rightarrow> int \<Rightarrow> int \<Rightarrow> int \<Rightarrow> pystr list \<Rightarrow> pystr list" where
  "split_loop decode tokens chunk_size overlap start chunks =
     (let step = max (chunk_size - overlap) 1 in
      if start < int (length tokens) then
        (let end = start + chunk_size;
             chunk_tokens = py_slice tokens start end in
         if chunk_tokens = [] then
           split_loop decode tokens chunk_size overlap (start + step) chunks
         else
           (let chunk_text = strip (decode chunk_tokens);
                chunks' = (if chunk_text \<noteq> [] then chunks @ [chunk_text] else chunks) in
            if end \<ge> int (length tokens) then chunks'
            else split_loop decode tokens chunk_size overlap (start + step) chunks'))
      else chunks)"
  by pat_completeness auto
termination
  by (relation "measure (\<lambda>(decode, tokens, chunk_size, overlap, start, chunks).
        nat (int (length tokens) - start))") auto

definition split_text_by_tokens ::
  "(pystr \<Rightarrow> 't list) \<Rightarrow> ('t list \<Rightarrow> pystr) \<Rightarrow> pystr \<Rightarrow> int \<Rightarrow> int \<Rightarrow> pystr list" where
  "split_text_by_tokens encode decode text chunk_size overlap =
     split_loop decode (encode text) chunk_size overlap 0 []"

section \<open>Exceptions and formatting\<close>

text \<open>
  Every \<open>raise\<close> of the source and every failure of a library call is a value of \<open>exn\<close>
  carrying the text that \<open>str(exc)\<close> yields. \<open>LibraryError\<close> stands for any exception
  raised inside a library the app calls (loaders, embedding and chat service, index).
\<close>

datatype exn = ValueError pystr | IndexError pystr | LibraryError pystr


text \<open>\<open>str(n)\<close> for an integer: decimal digits, with a minus sign for negative numbers.\<close>

fun str_nat :: "nat \<Rightarrow> pystr" where
  "str_nat n = (if n < 10 then [48 + n] else str_nat (n div 10) @ [48 + n mod 10])"

definition py_str_int :: "int \<Rightarrow> pystr" where
  "py_str_int i = (if i < 0 then 45 # str_nat (nat (- i)) else str_nat (nat i))"

text \<open>\<open>sep.join(xs)\<close>.\<close>

fun join :: "pystr \<Rightarrow> pystr list \<Rightarrow> pystr" where
  "join sep [] = []"
| "join sep [x] = x"
| "join sep (x # y # ys) = x @ sep @ join sep (y # ys)"

definition NL :: pystr where
  "NL = [10]"

text \<open>The status markers: U+2705 (white heavy check mark) and U+274C (cross mark).\<close>

definition CHECK_MARK :: pystr where
  "CHECK_MARK = [9989]"

definition CROSS_MARK :: pystr where
  "CROSS_MARK = [10060]"

section \<open>Indexed records and the vector index\<close>

text \<open>
  A metadata dictionary is an association list from keys to values; \<open>dict_get\<close> is
  \<open>meta.get(key)\<close>, whose missing key is Python's \<open>None\<close>, and \<open>py_format\<close> is what an
  f-string prints for the value.
\<close>

datatype pyval = PStr pystr | PInt int

type_synonym meta_dict = "(pystr \<times> pyval) list"

definition dict_get :: "meta_dict \<Rightarrow> pystr \<Rightarrow> pyval option" where
  "dict_get m k = map_of m k"

fun py_format :: "pyval option \<Rightarrow> pystr" where
  "py_format None = lit ''None''"
| "py_format (Some (PStr s)) = s"
| "py_format (Some (PInt i)) = py_str_int i"

record 'e indexed_record =
  rid :: pystr
  document :: pystr
  embedding :: "'e list"
  metadata :: "meta_dict option"

type_synonym 'e collection = "'e indexed_record list"

type_synonym 'e storage = "pystr \<rightharpoonup> 'e collection"

text \<open>
  Modelled from the spec: the vector index is the third-party engine behind
  \<open>chromadb.PersistentClient\<close>; its operations follow the contract of section 4.3.
  The persisted storage maps a collection name to its records in insertion order. A
  collection handle is the collection's name; the app uses a handle only right after
  \<open>get_or_create_collection\<close> returned it. \<open>add\<close> requires four sequences of equal
  length and vectors of one width across old and new records; a record whose id is
  already stored takes the place of the stored one (section 5), any other is appended.
\<close>

definition get_or_create_collection :: "'e storage \<Rightarrow> pystr \<Rightarrow> 'e storage" where
  "get_or_create_collection st name = (case st name of None \<Rightarrow> st(name \<mapsto> []) | Some c \<Rightarrow> st)"

definition delete_collection :: "'e storage \<Rightarrow> pystr \<Rightarrow> exn + 'e storage" where
  "delete_collection st name =
     (if st name = None then Inl (ValueError (lit ''Collection does not exist.''))
      else Inr (st(name := None)))"

definition records :: "'e storage \<Rightarrow> pystr \<Rightarrow> 'e collection" where
  "records st name = (case st name of None \<Rightarrow> [] | Some c \<Rightarrow> c)"

definition count :: "'e storage \<Rightarrow> pystr \<Rightarrow> nat" where
  "count st name = length (records st name)"

fun put_record :: "'e indexed_record \<Rightarrow> 'e collection \<Rightarrow> 'e collection" where
  "put_record r [] = [r]"
| "put_record r (x # xs) = (if rid x = rid r then r # xs else x # put_record r xs)"

definition new_records ::
  "pystr list \<Rightarrow> pystr list \<Rightarrow> 'e list list \<Rightarrow> meta_dict list \<Rightarrow> 'e collection" where
  "new_records ids documents embeddings metadatas =
     map (\<lambda>(i, d, e, m). \<lparr>rid = i, document = d, embedding = e, metadata = Some m\<rparr>)
       (zip ids (zip documents (zip embeddings metadatas)))"

definition collection_add ::
  "'e storage \<Rightarrow> pystr \<Rightarrow> pystr list \<Rightarrow> pystr list \<Rightarrow> 'e list list \<Rightarrow> meta_dict list
     \<Rightarrow> exn + 'e storage" where
  "collection_add st name ids documents embeddings metadatas =
     (if \<not> (length documents = length ids \<and> length embeddings = length ids \<and>
             length metadatas = length ids)
      then Inl (ValueError (lit ''Unequal lengths.''))
      else if length (remdups (map length (map embedding (records st name) @ embeddings))) > 1
      then Inl (LibraryError (lit ''DimensionMismatchError''))
      else Inr (st(name \<mapsto>
             foldl (\<lambda>c r. put_record r c) (records st name)
               (new_records ids documents embeddings metadatas))))"

section \<open>The world: persisted storage and the log of service requests\<close>

datatype call = EmbedCall "pystr list" | ChatCall pystr pystr

record 'e world =
  store :: "'e storage"
  calls :: "call list"

text \<open>
  What the app consumes from outside: the tokenizer, the embedding and chat services
  (each answers a request with a result or an exception), the index's nearest-neighbour
  search, the text extractors of \<open>app/loaders\<close> (they fetch and parse external content)
  and the path and file operations of \<open>pathlib\<close>.
\<close>

record ('t, 'e) env =
  encode :: "pystr \<Rightarrow> 't list"
  decode :: "'t list \<Rightarrow> pystr"
  embeddings_create :: "pystr list \<Rightarrow> exn + 'e list list"
  query :: "'e list \<Rightarrow> int \<Rightarrow> 'e collection \<Rightarrow> 'e collection"
  chat_create :: "pystr \<Rightarrow> pystr \<Rightarrow> exn + pystr option"
  load_webpage_text :: "pystr \<Rightarrow> exn + pystr"
  load_youtube_transcript :: "pystr \<Rightarrow> exn + pystr"
  load_pdf_text :: "nat list \<Rightarrow> exn + pystr"
  load_docx_text :: "nat list \<Rightarrow> exn + pystr"
  read_bytes :: "pystr \<Rightarrow> exn + nat list"
  path_name :: "pystr \<Rightarrow> pystr"
  path_suffix_lower :: "pystr \<Rightarrow> pystr"
  decode_utf8_ignore :: "nat list \<Rightarrow> pystr"

definition collection_name :: "pystr \<Rightarrow> pystr" where
  "collection_name session_id = lit ''knowledge_agent_'' @ session_id"

definition get_chroma_collection :: "pystr \<Rightarrow> 'e world \<Rightarrow> pystr \<times> 'e world" where
  "get_chroma_collection session_id w =
     (let collection_name = collection_name session_id
      in (collection_name, w\<lparr>store := get_or_create_collection (store w) collection_name\<rparr>))"

definition embed_texts ::
  "('t, 'e) env \<Rightarrow> pystr list \<Rightarrow> 'e world \<Rightarrow> (exn + 'e list list) \<times> 'e world" where
  "embed_texts env text_list w =
     (if text_list = [] then (Inr [], w)
      else (embeddings_create env text_list, w\<lparr>calls := calls w @ [EmbedCall text_list]\<rparr>))"

section \<open>Ingestion\<close>

definition doc_id :: "int \<Rightarrow> pystr" where
  "doc_id k = lit ''doc_'' @ py_str_int k"

definition chunk_metadata :: "pystr \<Rightarrow> pystr \<Rightarrow> nat \<Rightarrow> meta_dict" where
  "chunk_metadata source_name source_type idx =
     [(lit ''source'', PStr source_name), (lit ''source_type'', PStr source_type),
      (lit ''chunk_index'', PInt (int idx))]"

definition ingest_source_text ::
  "('t, 'e) env \<Rightarrow> pystr \<Rightarrow> pystr \<Rightarrow> pystr \<Rightarrow> pystr \<Rightarrow> 'e world \<Rightarrow> (exn + int) \<times> 'e world" where
  "ingest_source_text env session_id source_name source_type text w =
     (if strip text = [] then
        (Inl (ValueError (lit ''Loaded content is empty and cannot be ingested.'')), w)
      else
        (let chunks = split_text_by_tokens (encode env) (decode env) text
                        MAX_CHUNK_TOKENS CHUNK_OVERLAP_TOKENS in
         if chunks = [] then
           (Inl (ValueError (lit ''No chunks were created from this source.'')), w)
         else
           (case embed_texts env chunks w of
              (Inl exc, w1) \<Rightarrow> (Inl exc, w1)
            | (Inr embeddings, w1) \<Rightarrow>
                (let (collection, w2) = get_chroma_collection session_id w1;
                     existing_count = count (store w2) collection;
                     ids = map (\<lambda>idx. doc_id (int existing_count + int idx)) [0..<length chunks];
                     metadatas = map (chunk_metadata source_name source_type) [0..<length chunks]
                 in case collection_add (store w2) collection ids chunks embeddings metadatas of
                      Inl exc \<Rightarrow> (Inl exc, w2)
                    | Inr st \<Rightarrow> (Inr (int (length chunks)), w2\<lparr>store := st\<rparr>)))))"

section \<open>Source listing and clearing\<close>

definition source_label :: "meta_dict \<Rightarrow> pystr" where
  "source_label meta =
     py_format (dict_get meta (lit ''source'')) @ lit '' ('' @
     py_format (dict_get meta (lit ''source_type'')) @ lit '')''"

definition list_sources :: "pystr \<Rightarrow> 'e world \<Rightarrow> pystr list \<times> 'e world" where
  "list_sources session_id w =
     (let (collection, w1) = get_chroma_collection session_id w in
      if count (store w1) collection = 0 then ([], w1)
      else
        (let metadatas = map metadata (records (store w1) collection);
             labels = set (concat (map (\<lambda>meta. case meta of Some m \<Rightarrow> [source_label m]
                                                | None \<Rightarrow> []) metadatas))
         in (sorted_list_of_set labels, w1)))"

definition clear_database :: "pystr \<Rightarrow> 'e world \<Rightarrow> 'e world" where
  "clear_database session_id w =
     (let collection_name = collection_name session_id;
          st = (case delete_collection (store w) collection_name of
                  Inl exc \<Rightarrow> store w
                | Inr st' \<Rightarrow> st')
      in w\<lparr>store := get_or_create_collection st collection_name\<rparr>)"

section \<open>Retrieval and answer composition\<close>

definition meta_get_default :: "meta_dict option \<Rightarrow> pystr \<Rightarrow> pystr \<Rightarrow> pyval" where
  "meta_get_default meta key dflt =
     (case meta of
        Some m \<Rightarrow> (case dict_get m key of Some v \<Rightarrow> v | None \<Rightarrow> PStr dflt)
      | None \<Rightarrow> PStr dflt)"

definition citation_label :: "nat \<Rightarrow> meta_dict option \<Rightarrow> pystr" where
  "citation_label idx meta =
     (let source = meta_get_default meta (lit ''source'') (lit ''unknown source'');
          source_type = meta_get_default meta (lit ''source_type'') (lit ''unknown'')
      in lit ''['' @ py_str_int (int idx) @ lit ''] '' @ py_format (Some source) @
         lit '' ('' @ py_format (Some source_type) @ lit '')'')"

text \<open>
  The loop \<open>for idx, (doc, meta) in enumerate(zip(documents, metadatas), start=1)\<close>,
  appending to \<open>context_parts\<close> and \<open>citations\<close>.
\<close>

fun citation_loop ::
  "(nat \<times> pystr \<times> meta_dict option) list \<Rightarrow> pystr list \<Rightarrow> pystr list
     \<Rightarrow> pystr list \<times> pystr list" where
  "citation_loop [] context_parts citations = (context_parts, citations)"
| "citation_loop ((idx, doc, meta) # rest) context_parts citations =
     (let label = citation_label idx meta
      in citation_loop rest (context_parts @ [label @ NL @ doc]) (citations @ [label]))"

definition SYSTEM_MESSAGE :: pystr where
  "SYSTEM_MESSAGE = lit ''Answer using only provided context and cite sources.''"

definition build_prompt :: "pystr \<Rightarrow> pystr \<Rightarrow> pystr" where
  "build_prompt question context_text =
     lit ''You are a helpful assistant answering from provided context only. '' @
     lit ''If answer is missing, say you don't know. '' @
     lit ''Include bracket citations like [1], [2].'' @ NL @ NL @
     lit ''Question:'' @ NL @ question @ NL @ NL @
     lit ''Context:'' @ NL @ context_text"

definition answer_question ::
  "('t, 'e) env \<Rightarrow> pystr \<Rightarrow> pystr \<Rightarrow> int \<Rightarrow> 'e world \<Rightarrow> (exn + pystr \<times> pystr) \<times> 'e world" where
  "answer_question env session_id question top_k w =
     (let (collection, w1) = get_chroma_collection session_id w in
      if count (store w1) collection = 0 then
        (Inl (ValueError (lit ''No content has been ingested yet.'')), w1)
      else
        (case embed_texts env [question] w1 of
           (Inl exc, w2) \<Rightarrow> (Inl exc, w2)
         | (Inr [], w2) \<Rightarrow> (Inl (IndexError (lit ''list index out of range'')), w2)
         | (Inr (query_embedding # _), w2) \<Rightarrow>
             (let results = query env query_embedding top_k (records (store w2) collection);
                  documents = map document results;
                  metadatas = map metadata results
              in if documents = [] then
                   (Inr (lit ''I couldn't find relevant information in the current knowledge base.'',
                         lit ''No citations found.''), w2)
                 else
                   (let (context_parts, citations) =
                          citation_loop (List.enumerate 1 (zip documents metadatas)) [] [];
                        context_text = join (NL @ NL) context_parts;
                        prompt = build_prompt question context_text;
                        w3 = w2\<lparr>calls := calls w2 @ [ChatCall SYSTEM_MESSAGE prompt]\<rparr>
                    in case chat_create env SYSTEM_MESSAGE prompt of
                         Inl exc \<Rightarrow> (Inl exc, w3)
                       | Inr content \<Rightarrow>
                           (let answer = (case content of
                                            None \<Rightarrow> lit ''No answer returned.''
                                          | Some c \<Rightarrow> if c = [] then lit ''No answer returned.'' else c);
                                citation_text = join NL (map (\<lambda>item. lit ''- '' @ item) citations)
                            in (Inr (answer, citation_text), w3))))))"

section \<open>Public entry points\<close>

definition sources_markdown :: "pystr \<Rightarrow> 'e world \<Rightarrow> pystr \<times> 'e world" where
  "sources_markdown session_id w =
     (let (sources, w1) = list_sources session_id w in
      if sources = [] then (lit ''No sources ingested yet.'', w1)
      else (join NL (map (\<lambda>src. lit ''- '' @ src) sources), w1))"

text \<open>
  \<open>return status, sources_markdown(session_id)\<close>: the status paired with the listing of
  the session's sources at that moment.
\<close>

definition with_sources :: "pystr \<Rightarrow> pystr \<Rightarrow> 'e world \<Rightarrow> (pystr \<times> pystr) \<times> 'e world" where
  "with_sources status session_id w =
     (let (md, w1) = sources_markdown session_id w in ((status, md), w1))"







section \<open>The composer's step 5, in the spec's words\<close>

text \<open>
  For each retrieved record in rank order, numbered from 1: the citation label, and the
  context block made of the label and the chunk text.
\<close>

definition citations_of :: "'e collection \<Rightarrow> pystr list" where
  "citations_of rs = map (\<lambda>i. citation_label (i + 1) (metadata (rs ! i))) [0..<length rs]"

definition context_of :: "'e collection \<Rightarrow> pystr list" where
  "context_of rs =
     map (\<lambda>i. citation_label (i + 1) (metadata (rs ! i)) @ NL @ document (rs ! i)) [0..<length rs]"

text \<open>\<open>content or "No answer returned."\<close>: the fixed text replaces a missing or empty answer.\<close>

definition or_default :: "pystr option \<Rightarrow> pystr" where
  "or_default content =
     (case content of None \<Rightarrow> lit ''No answer returned.''
      | Some c \<Rightarrow> if c = [] then lit ''No answer returned.'' else c)"

text \<open>A status string carries the success marker, or the failure marker, as its prefix.\<close>

definition marked_ok :: "pystr \<Rightarrow> bool" where
  "marked_ok status \<longleftrightarrow> prefix CHECK_MARK status"

definition marked_failed :: "pystr \<Rightarrow> bool" where
  "marked_failed status \<longleftrightarrow> prefix CROSS_MARK status"

section \<open>The numbering invariant of a session's collection\<close>

text \<open>
  The ids of a collection are \<open>doc_0\<close>, \<open>doc_1\<close>, ... in insertion order. A fresh or
  cleared collection satisfies this, and every serialized operation of the app keeps it.
\<close>

definition well_numbered :: "'e collection \<Rightarrow> bool" where
  "well_numbered c \<longleftrightarrow> map rid c = map (\<lambda>k. doc_id (int k)) [0..<length c]"

section \<open>A concrete environment and worlds for evaluation\<close>

definition empty_world :: "nat world" where
  "empty_world = \<lparr>store = Map.empty, calls = []\<rparr>"

definition demo_env :: "(nat, nat) env" where
  "demo_env = \<lparr>encode = id, decode = id,
     embeddings_create = (\<lambda>texts. Inr (map (\<lambda>t. [length t]) texts)),
     query = (\<lambda>v k c. take (nat k) c),
     chat_create = (\<lambda>system prompt. Inr (Some (lit ''The sky is blue. [1]''))),
     load_webpage_text = (\<lambda>url. Inr (lit ''Hi'')),
     load_youtube_transcript = (\<lambda>url. Inl (LibraryError (lit ''No transcript.''))),
     load_pdf_text = (\<lambda>b. Inr b),
     load_docx_text = (\<lambda>b. Inr b),
     read_bytes = (\<lambda>path. Inr (lit ''Water is wet.'')),
     path_name = id,
     path_suffix_lower = (\<lambda>path. lit ''.txt''),
     decode_utf8_ignore = id\<rparr>"

definition demo_record :: "nat \<Rightarrow> pystr \<Rightarrow> pystr \<Rightarrow> pystr \<Rightarrow> nat \<Rightarrow> nat indexed_record" where
  "demo_record k text name ty idx =
     \<lparr>rid = doc_id (int k), document = text, embedding = [length text],
      metadata = Some (chunk_metadata name ty idx)\<rparr>"

text \<open>
  The scenario of the spec's section 8: session \<open>s1\<close> holds one record, the single chunk
  of source \<open>doc1\<close> of type \<open>txt\<close>.
\<close>

definition scenario_world :: "nat world" where
  "scenario_world =
     \<lparr>store = [collection_name (lit ''s1'') \<mapsto>
                [demo_record 0 (lit ''The sky is blue. Grass is green.'') (lit ''doc1'') (lit ''txt'') 0]],
      calls = []\<rparr>"

section \<open>The chunker covers every token\<close>

declare split_loop.simps [simp del]












section \<open>Framing: what each operation leaves alone\<close>

lemma strip_blank: "(\<forall>c\<in>set s. isspace c) \<Longrightarrow> strip s = []"
proof -
  assume "\<forall>c\<in>set s. isspace c"
  then have d: "dropWhile isspace s = []" by simp
  show ?thesis unfolding strip_def d by simp
qed

lemma strip_blank_iff: "strip s = [] \<longleftrightarrow> (\<forall>c\<in>set s. isspace c)"
proof
  assume "strip s = []"
  then have "dropWhile isspace (rev (dropWhile isspace s)) = []" by (simp add: strip_def)
  then have "\<forall>c\<in>set (dropWhile isspace s). isspace c" by (simp add: dropWhile_eq_Nil_conv)
  moreover have "dropWhile isspace s = [] \<or> \<not> isspace (hd (dropWhile isspace s))"
    using hd_dropWhile by blast
  ultimately have "dropWhile isspace s = []" by (cases "dropWhile isspace s") auto
  then show "\<forall>c\<in>set s. isspace c" by (simp add: dropWhile_eq_Nil_conv)
qed (rule strip_blank)

lemma collection_name_inj: "collection_name A = collection_name B \<longleftrightarrow> A = B"
  by (simp add: collection_name_def)

lemma store_get_chroma:
  "store (snd (get_chroma_collection sid w)) name =
     (if name = collection_name sid \<and> store w name = None then Some [] else store w name)"
  by (auto simp: get_chroma_collection_def get_or_create_collection_def Let_def split: option.splits)

lemma fst_get_chroma [simp]: "fst (get_chroma_collection sid w) = collection_name sid"
  by (simp add: get_chroma_collection_def Let_def)

lemma calls_get_chroma [simp]: "calls (snd (get_chroma_collection sid w)) = calls w"
  by (simp add: get_chroma_collection_def Let_def)

lemma records_get_chroma [simp]:
  "records (store (snd (get_chroma_collection sid w))) name = records (store w) name"
  by (auto simp: records_def store_get_chroma)

lemma count_get_chroma [simp]:
  "count (store (snd (get_chroma_collection sid w))) name = count (store w) name"
  by (simp add: count_def)

lemma store_embed_texts [simp]: "store (snd (embed_texts env ts w)) = store w"
  by (simp add: embed_texts_def)

lemma collection_add_other:
  "collection_add st name ids ds es ms = Inr st' \<Longrightarrow> other \<noteq> name \<Longrightarrow> st' other = st other"
  by (auto simp: collection_add_def split: if_splits)

lemma ingest_store_other:
  assumes "other \<noteq> collection_name sid"
  shows "store (snd (ingest_source_text env sid n t x w)) other = store w other"
proof -
  have "store w2 other = store w other"
    if "get_chroma_collection sid w1 = (c, w2)" "store w1 = store w" for c w1 w2
    using that assms store_get_chroma [of sid w1 other] by (metis snd_conv)
  moreover have "st' other = store w other"
    if "get_chroma_collection sid w1 = (c, w2)" "store w1 = store w"
       "collection_add (store w2) c ids ds es ms = Inr st'" for c w1 w2 ids ds es ms st'
    using that assms collection_add_other [of "store w2" c ids ds es ms st' other]
      store_get_chroma [of sid w1 other] fst_get_chroma [of sid w1]
    by (metis fst_conv snd_conv)
  ultimately show ?thesis
    unfolding ingest_source_text_def
    by (auto simp: Let_def embed_texts_def split: prod.splits sum.splits if_splits)
qed

lemma clear_store_other:
  "other \<noteq> collection_name sid \<Longrightarrow> store (clear_database sid w) other = store w other"
  by (simp add: clear_database_def delete_collection_def get_or_create_collection_def Let_def
      split: option.splits)

lemma list_sources_store:
  "store (snd (list_sources sid w)) = store (snd (get_chroma_collection sid w))"
  by (simp add: list_sources_def Let_def split: prod.splits)

lemma get_chroma_eq:
  "get_chroma_collection sid w =
     (collection_name sid, w\<lparr>store := get_or_create_collection (store w) (collection_name sid)\<rparr>)"
  by (simp add: get_chroma_collection_def Let_def)

lemma records_goc [simp]: "records (get_or_create_collection st name) other = records st other"
  by (auto simp: records_def get_or_create_collection_def split: option.splits)

lemma count_goc [simp]: "count (get_or_create_collection st name) other = count st other"
  by (simp add: count_def)

lemma embed_single:
  "embed_texts env [q] w = (embeddings_create env [q], w\<lparr>calls := calls w @ [EmbedCall [q]]\<rparr>)"
  by (simp add: embed_texts_def)

lemma list_sources_eq:
  "list_sources sid w =
     ((if records (store w) (collection_name sid) = [] then []
       else sorted_list_of_set (set (concat (map (\<lambda>meta. case meta of Some m \<Rightarrow> [source_label m]
                                                | None \<Rightarrow> []) (map metadata (records (store w) (collection_name sid))))))),
      w\<lparr>store := get_or_create_collection (store w) (collection_name sid)\<rparr>)"
  by (simp add: list_sources_def get_chroma_eq Let_def count_def)

lemma list_sources_depends:
  "store w1 (collection_name sid) = store w2 (collection_name sid) \<Longrightarrow>
   fst (list_sources sid w1) = fst (list_sources sid w2)"
  by (simp add: list_sources_eq records_def)

lemma citation_loop_map:
  "citation_loop xs cp cs =
     (cp @ map (\<lambda>(i, d, m). citation_label i m @ NL @ d) xs,
      cs @ map (\<lambda>(i, d, m). citation_label i m) xs)"
  by (induction xs arbitrary: cp cs) (auto simp: Let_def)

lemma enumerate_results:
  "map (\<lambda>(i, d, m). f i d m) (List.enumerate n (zip (map document rs) (map metadata rs))) =
   map (\<lambda>i. f (n + i) (document (rs ! i)) (metadata (rs ! i))) [0..<length rs]"
  by (rule nth_equalityI) (simp_all add: nth_enumerate_eq)

lemma citation_loop_results:
  "citation_loop (List.enumerate 1 (zip (map document rs) (map metadata rs))) [] [] =
     (context_of rs, citations_of rs)"
  unfolding citation_loop_map context_of_def citations_of_def
  using enumerate_results [of "\<lambda>i d m. citation_label i m @ NL @ d" 1 rs]
    enumerate_results [of "\<lambda>i d m. citation_label i m" 1 rs]
  by (simp add: add.commute)

lemma answer_empty:
  assumes "records (store w) (collection_name sid) = []"
  shows "answer_question env sid q k w =
    (Inl (ValueError (lit ''No content has been ingested yet.'')),
     w\<lparr>store := get_or_create_collection (store w) (collection_name sid)\<rparr>)"
  using assms by (simp add: answer_question_def get_chroma_eq count_def)

lemma answer_embed_fails:
  assumes "records (store w) (collection_name sid) \<noteq> []" "embeddings_create env [q] = Inl exc"
  shows "answer_question env sid q k w =
    (Inl exc, \<lparr>store = get_or_create_collection (store w) (collection_name sid),
              calls = calls w @ [EmbedCall [q]]\<rparr>)"
  using assms by (simp add: answer_question_def get_chroma_eq count_def embed_single)

lemma answer_embed_none:
  assumes "records (store w) (collection_name sid) \<noteq> []" "embeddings_create env [q] = Inr []"
  shows "answer_question env sid q k w =
    (Inl (IndexError (lit ''list index out of range'')),
     \<lparr>store = get_or_create_collection (store w) (collection_name sid),
      calls = calls w @ [EmbedCall [q]]\<rparr>)"
  using assms by (simp add: answer_question_def get_chroma_eq count_def embed_single)

lemma answer_no_results:
  assumes "records (store w) (collection_name sid) \<noteq> []"
    "embeddings_create env [q] = Inr (v # vs)"
    "query env v k (records (store w) (collection_name sid)) = []"
  shows "answer_question env sid q k w =
    (Inr (lit ''I couldn't find relevant information in the current knowledge base.'',
          lit ''No citations found.''),
     \<lparr>store = get_or_create_collection (store w) (collection_name sid),
      calls = calls w @ [EmbedCall [q]]\<rparr>)"
  using assms by (simp add: answer_question_def get_chroma_eq count_def embed_single)

lemma answer_chat:
  assumes "records (store w) (collection_name sid) \<noteq> []"
    "embeddings_create env [q] = Inr (v # vs)"
    "query env v k (records (store w) (collection_name sid)) = rs" "rs \<noteq> []"
  shows "answer_question env sid q k w =
    (case chat_create env SYSTEM_MESSAGE (build_prompt q (join (NL @ NL) (context_of rs))) of
       Inl exc \<Rightarrow> Inl exc
     | Inr content \<Rightarrow>
         Inr (case content of None \<Rightarrow> lit ''No answer returned.''
              | Some c \<Rightarrow> if c = [] then lit ''No answer returned.'' else c,
              join NL (map (\<lambda>item. lit ''- '' @ item) (citations_of rs))),
     \<lparr>store = get_or_create_collection (store w) (collection_name sid),
      calls = calls w @ [EmbedCall [q],
        ChatCall SYSTEM_MESSAGE (build_prompt q (join (NL @ NL) (context_of rs)))]\<rparr>)"
  using assms
  by (simp add: answer_question_def get_chroma_eq count_def embed_single citation_loop_results
      del: One_nat_def split: sum.splits)

lemma answer_world:
  "snd (answer_question env sid q k w) =
     \<lparr>store = get_or_create_collection (store w) (collection_name sid),
      calls = calls w @
        (if records (store w) (collection_name sid) = [] then []
         else case embeddings_create env [q] of
                Inr (v # vs) \<Rightarrow>
                  (let rs = query env v k (records (store w) (collection_name sid)) in
                   if rs = [] then [EmbedCall [q]]
                   else [EmbedCall [q],
                         ChatCall SYSTEM_MESSAGE (build_prompt q (join (NL @ NL) (context_of rs)))])
              | _ \<Rightarrow> [EmbedCall [q]])\<rparr>"
proof (cases "records (store w) (collection_name sid) = []")
  case True
  then show ?thesis by (simp add: answer_empty)
next
  case ne: False
  show ?thesis
  proof (cases "embeddings_create env [q]")
    case (Inl exc)
    with ne show ?thesis by (simp add: answer_embed_fails)
  next
    case (Inr es)
    show ?thesis
    proof (cases es)
      case Nil
      with ne Inr show ?thesis by (simp add: answer_embed_none)
    next
      case (Cons v vs)
      show ?thesis
      proof (cases "query env v k (records (store w) (collection_name sid)) = []")
        case True
        with ne Inr Cons show ?thesis by (simp add: answer_no_results)
      next
        case False
        with ne Inr Cons show ?thesis by (simp add: answer_chat [OF _ _ refl] Let_def)
      qed
    qed
  qed
qed

lemma answer_store:
  "store (snd (answer_question env sid q k w)) =
     get_or_create_collection (store w) (collection_name sid)"
  by (simp add: answer_world)

lemma answer_depends:
  assumes "store w1 (collection_name sid) = store w2 (collection_name sid)"
  shows "fst (answer_question env sid q k w1) = fst (answer_question env sid q k w2)"
proof -
  from assms have R: "records (store w1) (collection_name sid) = records (store w2) (collection_name sid)"
    by (simp add: records_def)
  show ?thesis
  proof (cases "records (store w2) (collection_name sid) = []")
    case True
    with R show ?thesis by (simp add: answer_empty)
  next
    case ne: False
    show ?thesis
    proof (cases "embeddings_create env [q]")
      case (Inl exc)
      with ne R show ?thesis by (simp add: answer_embed_fails)
    next
      case (Inr es)
      show ?thesis
      proof (cases es)
        case Nil
        with ne R Inr show ?thesis by (simp add: answer_embed_none)
      next
        case (Cons v vs)
        show ?thesis
        proof (cases "query env v k (records (store w2) (collection_name sid)) = []")
          case True
          with ne R Inr Cons show ?thesis by (simp add: answer_no_results)
        next
          case False
          from ne R have ne1: "records (store w1) (collection_name sid) \<noteq> []" by simp
          from Inr Cons have e: "embeddings_create env [q] = Inr (v # vs)" by simp
          from False R have
            nr: "query env v k (records (store w1) (collection_name sid)) \<noteq> []" by simp
          show ?thesis
            unfolding answer_chat [OF ne1 e refl nr] answer_chat [OF ne e refl False] R fst_conv ..
        qed
      qed
    qed
  qed
qed

text \<open>
  Claim C2 (cross-session isolation). For distinct session identifiers A and B, after
  any operation on session A (ingest, clear, answer, list sources) the collection of
  session B is what it was, and so are B's source listing, record count and answer
  results; in particular, after an ingest into A, a session B without records has an
  empty source listing and count 0.
\<close>

theorem session_isolation:
  assumes "A \<noteq> B"
  shows "(\<forall>w' \<in> {snd (ingest_source_text env A n t x w), clear_database A w,
                  snd (answer_question env A q k w), snd (list_sources A w)}.
            store w' (collection_name B) = store w (collection_name B) \<and>
            fst (list_sources B w') = fst (list_sources B w) \<and>
            count (store w') (collection_name B) = count (store w) (collection_name B) \<and>
            fst (answer_question env' B q' k' w') = fst (answer_question env' B q' k' w)) \<and>
         (count (store w) (collection_name B) = 0 \<longrightarrow>
            fst (list_sources B (snd (ingest_source_text env A n t x w))) = [] \<and>
            count (store (snd (get_chroma_collection B (snd (ingest_source_text env A n t x w)))))
              (fst (get_chroma_collection B (snd (ingest_source_text env A n t x w)))) = 0)"
proof -
  from assms have ne: "collection_name B \<noteq> collection_name A"
    by (simp add: collection_name_inj)
  let ?P = "\<lambda>w'. store w' (collection_name B) = store w (collection_name B)"
  have obs: "fst (list_sources B w') = fst (list_sources B w) \<and>
            count (store w') (collection_name B) = count (store w) (collection_name B) \<and>
            fst (answer_question env' B q' k' w') = fst (answer_question env' B q' k' w)"
    if "?P w'" for w'
    using that list_sources_depends [of w' B w] answer_depends [of w' B w env' q' k']
    by (simp add: count_def records_def)
  have 1: "?P (snd (ingest_source_text env A n t x w))" using ne by (rule ingest_store_other)
  have 2: "?P (clear_database A w)" using ne by (rule clear_store_other)
  have 3: "?P (snd (answer_question env A q k w))"
    using ne by (simp add: answer_store get_or_create_collection_def split: option.splits)
  have 4: "?P (snd (list_sources A w))"
    using ne by (simp add: list_sources_store store_get_chroma)
  have empty: "fst (list_sources B w') = []" if "count (store w') (collection_name B) = 0" for w'
    using that by (simp add: list_sources_eq count_def)
  have part1: "\<forall>w' \<in> {snd (ingest_source_text env A n t x w), clear_database A w,
                  snd (answer_question env A q k w), snd (list_sources A w)}.
            store w' (collection_name B) = store w (collection_name B) \<and>
            fst (list_sources B w') = fst (list_sources B w) \<and>
            count (store w') (collection_name B) = count (store w) (collection_name B) \<and>
            fst (answer_question env' B q' k' w') = fst (answer_question env' B q' k' w)"
    using 1 2 3 4 obs by blast
  have part2: "fst (list_sources B (snd (ingest_source_text env A n t x w))) = [] \<and>
            count (store (snd (get_chroma_collection B (snd (ingest_source_text env A n t x w)))))
              (fst (get_chroma_collection B (snd (ingest_source_text env A n t x w)))) = 0"
    if "count (store w) (collection_name B) = 0"
    using that obs [OF 1] empty by simp
  from part1 part2 show ?thesis by blast
qed

text \<open>
  Claim C5 (degenerate input). Ingesting a text that is empty or consists of whitespace
  only fails with the error raised for empty input (the spec's \<open>EmptyInputError\<close>) and
  returns the world unchanged: no embedding request is logged and every collection,
  hence the session's count, is as before.
\<close>

theorem ingest_empty_input:
  assumes "\<forall>c \<in> set text. isspace c"
  shows "ingest_source_text env sid name ty text w =
           (Inl (ValueError (lit ''Loaded content is empty and cannot be ingested.'')), w)"
  using strip_blank [OF assms] by (simp add: ingest_source_text_def)

text \<open>
  Claim C6 (asking before ingesting). When the session's index has count 0,
  \<open>answer_question\<close> fails with the error for an empty knowledge base (the spec's
  \<open>EmptyKnowledgeBaseError\<close>) and the log of service requests is unchanged: neither the
  embedding nor the chat service was called.
\<close>

theorem answer_empty_knowledge_base:
  assumes "count (store w) (collection_name sid) = 0"
  shows "fst (answer_question env sid q k w) = Inl (ValueError (lit ''No content has been ingested yet.''))
     \<and> calls (snd (answer_question env sid q k w)) = calls w"
  using assms by (simp add: answer_empty count_def)

text \<open>
  Claim C7 (no-results fallback). With a non-empty index, an answered embedding request
  and a similarity query that returns no record, \<open>answer_question\<close> returns the fixed
  fallback answer paired with the marker \<open>No citations found.\<close>; it does not fail, and the
  only request logged is the embedding of the question (no chat request).
\<close>

theorem answer_no_results_fallback:
  assumes "count (store w) (collection_name sid) \<noteq> 0"
    and "embeddings_create env [q] = Inr (v # vs)"
    and "query env v k (records (store w) (collection_name sid)) = []"
  shows "fst (answer_question env sid q k w) =
           Inr (lit ''I couldn't find relevant information in the current knowledge base.'',
                lit ''No citations found.'') \<and>
         calls (snd (answer_question env sid q k w)) = calls w @ [EmbedCall [q]]"
  using assms by (simp add: answer_no_results count_def)

lemma count_list_distinct: "distinct xs \<Longrightarrow> x \<in> set xs \<Longrightarrow> count_list xs x = 1"
  by (induction xs) auto

lemma source_label_chunk:
  "source_label (chunk_metadata name ty idx) = name @ lit '' ('' @ ty @ lit '')''"
  by (simp add: source_label_def chunk_metadata_def dict_get_def lit_def)

text \<open>
  Claim C8 (clear). Clearing a session twice leaves the same world as clearing it once;
  after a clear the session's count is 0 and its source listing is empty; every other
  collection is untouched.
\<close>

theorem clear_idempotent:
  "clear_database sid (clear_database sid w) = clear_database sid w \<and>
   count (store (clear_database sid w)) (collection_name sid) = 0 \<and>
   fst (list_sources sid (clear_database sid w)) = [] \<and>
   (\<forall>other. other \<noteq> collection_name sid \<longrightarrow>
      store (clear_database sid w) other = store w other)"
proof -
  have s: "store (clear_database sid w) = (store w)(collection_name sid \<mapsto> [])" for w :: "'a world"
    by (auto simp: clear_database_def delete_collection_def get_or_create_collection_def Let_def
        split: option.splits)
  have c: "clear_database sid w = w\<lparr>store := (store w)(collection_name sid \<mapsto> [])\<rparr>"
    for w :: "'a world"
    by (auto simp: clear_database_def delete_collection_def get_or_create_collection_def Let_def
        split: option.splits)
  have "clear_database sid (clear_database sid w) = clear_database sid w"
    by (simp add: c)
  moreover have r: "records (store (clear_database sid w)) (collection_name sid) = []"
    by (simp add: s records_def)
  moreover from r have "fst (list_sources sid (clear_database sid w)) = []"
    by (simp add: list_sources_eq)
  ultimately show ?thesis by (simp add: count_def s)
qed

lemma labels_set:
  "set (concat (map (\<lambda>meta. case meta of Some m \<Rightarrow> [source_label m] | None \<Rightarrow> [])
          (map metadata rs))) =
     {source_label m |m. \<exists>r \<in> set rs. metadata r = Some m}"
  by (induction rs) (auto split: option.splits)

text \<open>
  Claim C10 (source listing). The listing is sorted ascending and has no duplicates; its
  elements are exactly the labels of the session's records; the label of each record's
  source occurs exactly once, however many records carry it; and the label of a record
  written by ingestion is \<open>name (type)\<close>.
\<close>

theorem list_sources_sorted_dedup:
  "sorted (fst (list_sources sid w)) \<and> distinct (fst (list_sources sid w)) \<and>
   set (fst (list_sources sid w)) =
     {source_label m |m. \<exists>r \<in> set (records (store w) (collection_name sid)). metadata r = Some m} \<and>
   (\<forall>r \<in> set (records (store w) (collection_name sid)). \<forall>m. metadata r = Some m \<longrightarrow>
      count_list (fst (list_sources sid w)) (source_label m) = 1) \<and>
   source_label (chunk_metadata name ty idx) = name @ lit '' ('' @ ty @ lit '')''"
proof -
  let ?rs = "records (store w) (collection_name sid)"
  let ?ls = "fst (list_sources sid w)"
  have sd: "sorted ?ls" "distinct ?ls" by (simp_all add: list_sources_eq)
  have st: "set ?ls = {source_label m |m. \<exists>r \<in> set ?rs. metadata r = Some m}"
  proof (cases "?rs = []")
    case True
    then show ?thesis by (simp add: list_sources_eq)
  next
    case False
    then have "set ?ls = set (concat (map (\<lambda>meta. case meta of Some m \<Rightarrow> [source_label m]
        | None \<Rightarrow> []) (map metadata ?rs)))"
      unfolding list_sources_eq by (simp del: set_concat)
    then show ?thesis unfolding labels_set .
  qed
  have "count_list ?ls (source_label m) = 1" if "r \<in> set ?rs" "metadata r = Some m" for r m
  proof -
    from that have "source_label m \<in> set ?ls" unfolding st by blast
    with sd(2) show ?thesis by (rule count_list_distinct)
  qed
  with sd st source_label_chunk show ?thesis by blast
qed

section \<open>The theorems at concrete inputs\<close>

lemma scenario_records:
  "records (store scenario_world) (collection_name (lit ''s1'')) =
     [demo_record 0 (lit ''The sky is blue. Grass is green.'') (lit ''doc1'') (lit ''txt'') 0]"
  by (simp add: scenario_world_def records_def)

lemma scenario_other:
  "records (store scenario_world) (collection_name (lit ''s2'')) = []"
  by (simp add: scenario_world_def records_def collection_name_def lit_def)

theorem session_isolation_witness:
  "lit ''s1'' \<noteq> lit ''s2'' \<and>
   fst (list_sources (lit ''s2'')
     (snd (ingest_source_text demo_env (lit ''s1'') (lit ''doc2'') (lit ''web'') (lit ''Hi'')
        scenario_world))) = []"
proof -
  have ne: "lit ''s1'' \<noteq> lit ''s2''" by (simp add: lit_def)
  have c: "count (store scenario_world) (collection_name (lit ''s2'')) = 0"
    by (simp add: count_def scenario_other)
  from session_isolation [OF ne, of demo_env "lit ''doc2''" "lit ''web''" "lit ''Hi''" scenario_world] c
  have "fst (list_sources (lit ''s2'')
     (snd (ingest_source_text demo_env (lit ''s1'') (lit ''doc2'') (lit ''web'') (lit ''Hi'')
        scenario_world))) = []" by blast
  with ne show ?thesis by (rule conjI)
qed

theorem ingest_empty_input_witness:
  "list_all isspace (lit ''  '') \<and>
   ingest_source_text demo_env (lit ''s1'') (lit ''doc1'') (lit ''txt'') (lit ''  '') scenario_world =
     (Inl (ValueError (lit ''Loaded content is empty and cannot be ingested.'')), scenario_world)"
proof -
  have h: "\<forall>c \<in> set (lit ''  ''). isspace c" by (simp add: lit_def isspace_def)
  then have "list_all isspace (lit ''  '')" by (simp add: list_all_iff)
  from this ingest_empty_input [OF h] show ?thesis by (rule conjI)
qed

theorem answer_empty_knowledge_base_witness:
  "count (store empty_world) (collection_name (lit ''s1'')) = 0 \<and>
   fst (answer_question demo_env (lit ''s1'') (lit ''What color is the sky?'') 4 empty_world) =
     Inl (ValueError (lit ''No content has been ingested yet.'')) \<and>
   calls (snd (answer_question demo_env (lit ''s1'') (lit ''What color is the sky?'') 4 empty_world)) = []"
proof -
  have h: "count (store empty_world) (collection_name (lit ''s1'')) = 0"
    by (simp add: empty_world_def count_def records_def)
  have "calls empty_world = []" by (simp add: empty_world_def)
  with h answer_empty_knowledge_base [OF h, of demo_env "lit ''What color is the sky?''" 4]
  show ?thesis by simp
qed

theorem answer_no_results_fallback_witness:
  "count (store scenario_world) (collection_name (lit ''s1'')) \<noteq> 0 \<and>
   fst (answer_question (demo_env\<lparr>query := \<lambda>v k c. []\<rparr>) (lit ''s1'') (lit ''Why?'') 4 scenario_world) =
     Inr (lit ''I couldn't find relevant information in the current knowledge base.'',
          lit ''No citations found.'') \<and>
   calls (snd (answer_question (demo_env\<lparr>query := \<lambda>v k c. []\<rparr>) (lit ''s1'') (lit ''Why?'') 4
     scenario_world)) = [EmbedCall [lit ''Why?'']]"
proof -
  let ?env = "demo_env\<lparr>query := \<lambda>v k c. []\<rparr>"
  have h1: "count (store scenario_world) (collection_name (lit ''s1'')) \<noteq> 0"
    by (simp add: count_def scenario_records)
  have h2: "embeddings_create ?env [lit ''Why?''] = Inr ([4] # [])"
    by (simp add: demo_env_def lit_def)
  have h3: "query ?env [4] 4 (records (store scenario_world) (collection_name (lit ''s1''))) = []"
    by (simp add: demo_env_def)
  have "calls scenario_world = []" by (simp add: scenario_world_def)
  with h1 answer_no_results_fallback [OF h1 h2 h3] show ?thesis by simp
qed

theorem clear_idempotent_witness:
  "collection_name (lit ''s2'') \<noteq> collection_name (lit ''s1'') \<and>
   store (clear_database (lit ''s1'') scenario_world) (collection_name (lit ''s2'')) =
     store scenario_world (collection_name (lit ''s2'')) \<and>
   count (store (clear_database (lit ''s1'') scenario_world)) (collection_name (lit ''s1'')) = 0"
proof -
  have ne: "collection_name (lit ''s2'') \<noteq> collection_name (lit ''s1'')"
    by (simp add: collection_name_def lit_def)
  with clear_idempotent [of "lit ''s1''" scenario_world] show ?thesis by blast
qed

theorem list_sources_sorted_dedup_witness:
  "demo_record 0 (lit ''The sky is blue. Grass is green.'') (lit ''doc1'') (lit ''txt'') 0
     \<in> set (records (store scenario_world) (collection_name (lit ''s1''))) \<and>
   count_list (fst (list_sources (lit ''s1'') scenario_world))
     (source_label (chunk_metadata (lit ''doc1'') (lit ''txt'') 0)) = 1"
proof -
  let ?r = "demo_record 0 (lit ''The sky is blue. Grass is green.'') (lit ''doc1'') (lit ''txt'') 0"
  have m: "?r \<in> set (records (store scenario_world) (collection_name (lit ''s1'')))"
    by (simp add: scenario_records)
  have md: "metadata ?r = Some (chunk_metadata (lit ''doc1'') (lit ''txt'') 0)"
    by (simp add: demo_record_def)
  from list_sources_sorted_dedup [of "lit ''s1''" scenario_world] m md
  have "count_list (fst (list_sources (lit ''s1'') scenario_world))
     (source_label (chunk_metadata (lit ''doc1'') (lit ''txt'') 0)) = 1" by blast
  with m show ?thesis by (rule conjI)
qed

section \<open>Ingestion appends freshly numbered records\<close>

declare str_nat.simps [simp del]

lemma str_nat_nonempty: "str_nat n \<noteq> []"
  by (subst str_nat.simps) simp

lemma str_nat_inj: "str_nat n = str_nat m \<Longrightarrow> n = m"
proof (induction n arbitrary: m rule: str_nat.induct)
  case (1 n)
  show ?case
  proof (cases "n < 10")
    case n: True
    show ?thesis
    proof (cases "m < 10")
      case True
      with n "1.prems" show ?thesis by (simp add: str_nat.simps [of n] str_nat.simps [of m])
    next
      case False
      with n "1.prems" str_nat_nonempty [of "m div 10"] show ?thesis
        by (simp add: str_nat.simps [of n] str_nat.simps [of m] Cons_eq_append_conv)
    qed
  next
    case n: False
    show ?thesis
    proof (cases "m < 10")
      case True
      with n "1.prems" str_nat_nonempty [of "n div 10"] show ?thesis
        by (simp add: str_nat.simps [of n] str_nat.simps [of m] append_eq_Cons_conv)
    next
      case False
      with n "1.prems" have "str_nat (n div 10) = str_nat (m div 10)" "n mod 10 = m mod 10"
        by (simp_all add: str_nat.simps [of n] str_nat.simps [of m])
      with "1.IH" [OF n] have "n div 10 = m div 10" "n mod 10 = m mod 10" by simp_all
      then show ?thesis by (metis div_mult_mod_eq)
    qed
  qed
qed

lemma doc_id_inj: "doc_id (int a) = doc_id (int b) \<longleftrightarrow> a = b"
  by (auto simp: doc_id_def py_str_int_def dest: str_nat_inj)

lemma put_record_fresh: "rid r \<notin> rid ` set c \<Longrightarrow> put_record r c = c @ [r]"
  by (induction c) auto

lemma foldl_put_fresh:
  "distinct (map rid news) \<Longrightarrow> rid ` set news \<inter> rid ` set c = {} \<Longrightarrow>
   foldl (\<lambda>c r. put_record r c) c news = c @ news"
proof (induction news arbitrary: c)
  case Nil
  then show ?case by simp
next
  case (Cons r news)
  from Cons.prems have f: "rid r \<notin> rid ` set c" by auto
  from Cons.prems have "rid ` set news \<inter> rid ` set (c @ [r]) = {}" by auto
  with Cons.IH [of "c @ [r]"] Cons.prems show ?case by (simp add: put_record_fresh [OF f])
qed


lemma new_records_nth:
  assumes "length ds = n" "length es = n"
  shows "new_records (map f [0..<n]) ds es (map g [0..<n]) =
    map (\<lambda>idx. \<lparr>rid = f idx, document = ds ! idx, embedding = es ! idx, metadata = Some (g idx)\<rparr>)
      [0..<n]"
  unfolding new_records_def using assms by (intro nth_equalityI) simp_all

lemma ingest_success:
  assumes inv: "well_numbered (records (store w) (collection_name sid))"
    and nonblank: "strip text \<noteq> []"
    and chunks: "split_text_by_tokens (encode env) (decode env) text
                   MAX_CHUNK_TOKENS CHUNK_OVERLAP_TOKENS = chunks" "chunks \<noteq> []"
    and embs: "embeddings_create env chunks = Inr embs" "length embs = length chunks"
    and dims: "\<not> length (remdups (map length
                  (map embedding (records (store w) (collection_name sid)) @ embs))) > 1"
  shows "ingest_source_text env sid name ty text w =
    (Inr (int (length chunks)),
     \<lparr>store = (get_or_create_collection (store w) (collection_name sid))
        (collection_name sid \<mapsto> records (store w) (collection_name sid) @
           map (\<lambda>idx. \<lparr>rid = doc_id (int (length (records (store w) (collection_name sid))) + int idx),
                        document = chunks ! idx, embedding = embs ! idx,
                        metadata = Some (chunk_metadata name ty idx)\<rparr>) [0..<length chunks]),
      calls = calls w @ [EmbedCall chunks]\<rparr>)"
    and "well_numbered (records (store w) (collection_name sid) @
           map (\<lambda>idx. \<lparr>rid = doc_id (int (length (records (store w) (collection_name sid))) + int idx),
                        document = chunks ! idx, embedding = embs ! idx,
                        metadata = Some (chunk_metadata name ty idx)\<rparr>) [0..<length chunks])"
proof -
  let ?c = "collection_name sid"
  let ?old = "records (store w) ?c"
  let ?m = "length ?old"
  let ?n = "length chunks"
  let ?ids = "map (\<lambda>idx. doc_id (int ?m + int idx)) [0..<?n]"
  let ?metas = "map (chunk_metadata name ty) [0..<?n]"
  let ?news = "map (\<lambda>idx. \<lparr>rid = doc_id (int ?m + int idx), document = chunks ! idx,
                   embedding = embs ! idx, metadata = Some (chunk_metadata name ty idx)\<rparr>) [0..<?n]"
  let ?st = "get_or_create_collection (store w) ?c"
  have news: "new_records ?ids chunks embs ?metas = ?news"
    using new_records_nth [OF refl embs(2), of "\<lambda>idx. doc_id (int ?m + int idx)"
        "chunk_metadata name ty"] .
  have rid_news: "map rid ?news = map (\<lambda>k. doc_id (int k)) [?m..<?m + ?n]"
    by (intro nth_equalityI) (simp_all add: o_def)
  have rid_old: "map rid ?old = map (\<lambda>k. doc_id (int k)) [0..<?m]"
    using inv by (simp add: well_numbered_def)
  have inj: "inj_on (\<lambda>k. doc_id (int k)) A" for A
    by (rule inj_onI) (simp add: doc_id_inj)
  have dist: "distinct (map rid ?news)"
    unfolding rid_news by (simp add: distinct_map inj)
  have "set (map rid ?news) \<inter> set (map rid ?old) = {}"
    unfolding rid_news rid_old by (auto simp: doc_id_inj)
  then have disj: "rid ` set ?news \<inter> rid ` set ?old = {}" unfolding set_map .
  have app: "foldl (\<lambda>c r. put_record r c) ?old ?news = ?old @ ?news"
    using dist disj by (rule foldl_put_fresh)
  have add: "collection_add ?st ?c ?ids chunks embs ?metas = Inr (?st(?c \<mapsto> ?old @ ?news))"
    using dims embs(2) by (simp add: collection_add_def news app)
  have emb: "embed_texts env chunks w = (Inr embs, w\<lparr>calls := calls w @ [EmbedCall chunks]\<rparr>)"
    using chunks(2) embs(1) by (simp add: embed_texts_def)
  show res: "ingest_source_text env sid name ty text w =
    (Inr (int ?n), \<lparr>store = ?st(?c \<mapsto> ?old @ ?news), calls = calls w @ [EmbedCall chunks]\<rparr>)"
    unfolding ingest_source_text_def
    using nonblank chunks by (simp add: emb get_chroma_eq count_def add)
  have len: "length (?old @ ?news) = ?m + ?n" by simp
  have "map rid (?old @ ?news) =
      map (\<lambda>k. doc_id (int k)) [0..<?m] @ map (\<lambda>k. doc_id (int k)) [?m..<?m + ?n]"
    by (simp only: map_append rid_old rid_news)
  also have "\<dots> = map (\<lambda>k. doc_id (int k)) ([0..<?m] @ [?m..<?m + ?n])"
    by (simp only: map_append)
  also have "[0..<?m] @ [?m..<?m + ?n] = [0..<?m + ?n]"
    by (rule upt_add_eq_append [symmetric]) simp
  finally show wn: "well_numbered (?old @ ?news)"
    unfolding well_numbered_def len .
qed


lemma well_numbered_empty: "well_numbered []"
  by (simp add: well_numbered_def)

lemma ingest_preserves_numbering:
  assumes inv: "well_numbered (records (store w) (collection_name sid))"
  shows "well_numbered (records (store (snd (ingest_source_text env sid name ty text w)))
           (collection_name sid))"
proof -
  let ?c = "collection_name sid"
  let ?chunks = "split_text_by_tokens (encode env) (decode env) text
                   MAX_CHUNK_TOKENS CHUNK_OVERLAP_TOKENS"
  let ?w' = "snd (ingest_source_text env sid name ty text w)"
  consider (blank) "strip text = []" | (none) "strip text \<noteq> []" "?chunks = []"
    | (fail) exc where "strip text \<noteq> []" "?chunks \<noteq> []" "embeddings_create env ?chunks = Inl exc"
    | (ok) embs where "strip text \<noteq> []" "?chunks \<noteq> []" "embeddings_create env ?chunks = Inr embs"
    by (cases "embeddings_create env ?chunks") auto
  then show ?thesis
  proof cases
    case blank
    with inv show ?thesis by (simp add: ingest_source_text_def)
  next
    case none
    with inv show ?thesis by (simp add: ingest_source_text_def)
  next
    case fail
    with inv show ?thesis by (simp add: ingest_source_text_def embed_texts_def)
  next
    case ok
    let ?good = "length embs = length ?chunks \<and>
      \<not> length (remdups (map length (map embedding (records (store w) ?c) @ embs))) > 1"
    show ?thesis
    proof (cases ?good)
      case True
      then have g: "length embs = length ?chunks"
        "\<not> length (remdups (map length (map embedding (records (store w) ?c) @ embs))) > 1"
        by simp_all
      note s = ingest_success [OF inv ok(1) refl ok(2) ok(3) g, of name ty]
      show ?thesis unfolding s(1) using s(2) by (simp add: records_def)
    next
      case False
      then have "\<exists>exc. collection_add (get_or_create_collection (store w) ?c) ?c
          (map (\<lambda>idx. doc_id (int (count (get_or_create_collection (store w) ?c) ?c) + int idx))
            [0..<length ?chunks]) ?chunks embs
          (map (chunk_metadata name ty) [0..<length ?chunks]) = Inl exc"
        by (auto simp: collection_add_def)
      with ok inv show ?thesis
        by (auto simp: ingest_source_text_def embed_texts_def get_chroma_eq Let_def)
    qed
  qed
qed

lemma clear_preserves_numbering:
  "well_numbered (records (store w) other) \<Longrightarrow>
   well_numbered (records (store (clear_database sid w)) other)"
  by (auto simp: clear_database_def delete_collection_def get_or_create_collection_def Let_def
      records_def well_numbered_def split: option.splits)


section \<open>Citations and the statuses of the entry points\<close>

lemma citation_label_ingested:
  "citation_label i (Some (chunk_metadata name ty idx)) =
     lit ''['' @ py_str_int (int i) @ lit ''] '' @ name @ lit '' ('' @ ty @ lit '')''"
  by (simp add: citation_label_def meta_get_default_def chunk_metadata_def dict_get_def lit_def)

text \<open>
  Claim C3, amended (citation construction and return). When the index is non-empty, the
  question is embedded, the query retrieves the non-empty \<open>rs\<close> and the chat service
  answers, \<open>answer_question\<close> returns the answer (or the fixed text for an empty one)
  paired with the citation block: one line \<open>- label\<close> per retrieved record, in rank
  order, joined by newlines, whatever the answer says. The label of the record of rank
  \<open>i + 1\<close> written by ingestion is \<open>[i + 1] source (source_type)\<close>; the context sent to
  the chat service joins, with a blank line between them, the blocks made of a label, a
  newline and the chunk text.
\<close>

theorem answer_citations:
  assumes "count (store w) (collection_name sid) \<noteq> 0"
    and "embeddings_create env [q] = Inr (v # vs)"
    and "query env v k (records (store w) (collection_name sid)) = rs" "rs \<noteq> []"
    and "chat_create env SYSTEM_MESSAGE (build_prompt q (join (NL @ NL) (context_of rs))) = Inr content"
  shows "fst (answer_question env sid q k w) =
           Inr (or_default content, join NL (map (\<lambda>label. lit ''- '' @ label) (citations_of rs))) \<and>
         calls (snd (answer_question env sid q k w)) =
           calls w @ [EmbedCall [q],
             ChatCall SYSTEM_MESSAGE (build_prompt q (join (NL @ NL) (context_of rs)))] \<and>
         length (citations_of rs) = length rs \<and> length (context_of rs) = length rs \<and>
         (\<forall>i < length rs.
            context_of rs ! i = citations_of rs ! i @ NL @ document (rs ! i) \<and>
            (\<forall>name ty idx. metadata (rs ! i) = Some (chunk_metadata name ty idx) \<longrightarrow>
               citations_of rs ! i =
                 lit ''['' @ py_str_int (int i + 1) @ lit ''] '' @ name @ lit '' ('' @ ty @ lit '')''))"
proof -
  from assms(1) have ne: "records (store w) (collection_name sid) \<noteq> []"
    by (simp add: count_def)
  have a: "fst (answer_question env sid q k w) =
           Inr (or_default content, join NL (map (\<lambda>label. lit ''- '' @ label) (citations_of rs)))"
    unfolding answer_chat [OF ne assms(2,3,4)] assms(5) by (simp add: or_default_def)
  have b: "calls (snd (answer_question env sid q k w)) =
           calls w @ [EmbedCall [q],
             ChatCall SYSTEM_MESSAGE (build_prompt q (join (NL @ NL) (context_of rs)))]"
    unfolding answer_chat [OF ne assms(2,3,4)] by simp
  have c: "citations_of rs ! i =
      lit ''['' @ py_str_int (int i + 1) @ lit ''] '' @ name @ lit '' ('' @ ty @ lit '')''"
    if "i < length rs" "metadata (rs ! i) = Some (chunk_metadata name ty idx)" for i name ty idx
    using that citation_label_ingested [of "i + 1" name ty idx]
    by (simp add: citations_of_def add.commute)
  have d: "context_of rs ! i = citations_of rs ! i @ NL @ document (rs ! i)" if "i < length rs" for i
    using that by (simp add: citations_of_def context_of_def)
  from a b c d show ?thesis by (simp add: citations_of_def context_of_def)
qed

lemma scenario_citations:
  "citations_of [demo_record 0 (lit ''The sky is blue. Grass is green.'') (lit ''doc1'') (lit ''txt'') 0]
     = [lit ''[1] doc1 (txt)'']"
  by (simp add: citations_of_def demo_record_def citation_label_ingested py_str_int_def
      str_nat.simps lit_def)

lemma scenario_hyps:
  "count (store scenario_world) (collection_name (lit ''s1'')) \<noteq> 0"
  "embeddings_create demo_env [lit ''What color is the sky?''] = Inr ([22] # [])"
  "query demo_env [22] 4 (records (store scenario_world) (collection_name (lit ''s1''))) =
     [demo_record 0 (lit ''The sky is blue. Grass is green.'') (lit ''doc1'') (lit ''txt'') 0]"
  "chat_create demo_env SYSTEM_MESSAGE p = Inr (Some (lit ''The sky is blue. [1]''))"
proof -
  show "count (store scenario_world) (collection_name (lit ''s1'')) \<noteq> 0"
    by (simp add: count_def scenario_records)
  show "embeddings_create demo_env [lit ''What color is the sky?''] = Inr ([22] # [])"
    by (simp add: demo_env_def lit_def)
  show "query demo_env [22] 4 (records (store scenario_world) (collection_name (lit ''s1''))) =
     [demo_record 0 (lit ''The sky is blue. Grass is green.'') (lit ''doc1'') (lit ''txt'') 0]"
    by (simp add: scenario_records demo_env_def)
  show "chat_create demo_env SYSTEM_MESSAGE p = Inr (Some (lit ''The sky is blue. [1]''))"
    by (simp add: demo_env_def)
qed

theorem answer_citations_witness:
  "fst (answer_question demo_env (lit ''s1'') (lit ''What color is the sky?'') 4 scenario_world) =
     Inr (lit ''The sky is blue. [1]'', lit ''- [1] doc1 (txt)'')"
proof -
  have ne: "[demo_record 0 (lit ''The sky is blue. Grass is green.'') (lit ''doc1'') (lit ''txt'') 0] \<noteq> []"
    by simp
  from answer_citations [OF scenario_hyps(1,2,3) ne scenario_hyps(4)]
  have "fst (answer_question demo_env (lit ''s1'') (lit ''What color is the sky?'') 4 scenario_world) =
     Inr (or_default (Some (lit ''The sky is blue. [1]'')),
          join NL (map (\<lambda>label. lit ''- '' @ label)
            (citations_of [demo_record 0 (lit ''The sky is blue. Grass is green.'') (lit ''doc1'')
               (lit ''txt'') 0])))"
    by (rule conjunct1)
  then show ?thesis
    unfolding scenario_citations by (simp add: or_default_def lit_def)
qed

lemma scenario_answer:
  "fst (answer_question demo_env (lit ''s1'') (lit ''What color is the sky?'') 4 scenario_world) =
     Inr (lit ''The sky is blue. [1]'', lit ''- [1] doc1 (txt)'')"
proof -
  have ne: "records (store scenario_world) (collection_name (lit ''s1'')) \<noteq> []"
    by (simp add: scenario_records)
  have nr: "[demo_record 0 (lit ''The sky is blue. Grass is green.'') (lit ''doc1'') (lit ''txt'') 0] \<noteq> []"
    by simp
  show ?thesis
    unfolding answer_chat [OF ne scenario_hyps(2,3) nr] scenario_hyps(4) scenario_citations
    by (simp add: lit_def)
qed

text \<open>
  In the single-chunk scenario (one record, source \<open>doc1\<close> of type \<open>txt\<close>) the citation
  component returned is the string \<open>- [1] doc1 (txt)\<close>, a bulleted block, and not the
  label list \<open>[1] doc1 (txt)\<close>.
\<close>

theorem answer_citations_counterexample:
  "fst (answer_question demo_env (lit ''s1'') (lit ''What color is the sky?'') 4 scenario_world) =
     Inr (lit ''The sky is blue. [1]'', lit ''- [1] doc1 (txt)'') \<and>
   lit ''- [1] doc1 (txt)'' \<noteq> join NL [lit ''[1] doc1 (txt)'']"
  using scenario_answer by (simp add: lit_def)

lemma fst_with_sources [simp]: "fst (fst (with_sources status sid w)) = status"
  by (simp add: with_sources_def split: prod.splits)





lemma marker_simps [simp]:
  "marked_ok (CHECK_MARK @ s)" "\<not> marked_ok (CROSS_MARK @ s)"
  "marked_failed (CROSS_MARK @ s)" "\<not> marked_failed (CHECK_MARK @ s)"
  by (simp_all add: marked_ok_def marked_failed_def CHECK_MARK_def CROSS_MARK_def)





end
